theory Spec2Isabelle
  imports Main "HOL-Library.Word"
begin

section \<open>Swarm api: name resolution, manifest access and file edits\<close>

text \<open>
  A shallow embedding of \<^verbatim>\<open>swarm/api/api.go\<close>. Calls that leave the file (resolver
  backends, the content store, the resource handler, the manifest trie and writer) act on
  a world state \<open>'s\<close> that is passed in and returned. Go's \<open>(value, error)\<close> results are
  sums with the error on the left; a run-time panic is a separate outcome. Metrics counters
  and log lines have no influence on any result and are left out.
\<close>

subsection \<open>Data\<close>

type_synonym byte = "8 word"
type_synonym bytes = "byte list"

text \<open>\<^verbatim>\<open>storage.Key\<close> is a byte slice; \<^verbatim>\<open>common.Hash\<close> is an array of 32 bytes.\<close>

type_synonym Key = bytes
type_synonym Hash = bytes

definition zeroHash :: Hash where
  "zeroHash = replicate 32 0"

text \<open>
  Go error values. The \<^verbatim>\<open>fmt.Errorf\<close> errors of the file are told apart by constructor
  and carry the value that is formatted into the message. \<open>ErrExternal\<close> stands for the
  errors that collaborators produce.
\<close>

datatype error =
    NoResolverError string
  | ErrResourceReturn string
  | ErrImmutableNotHash string
  | ErrNoDNS string
  | ErrEntryNotFound string
  | ErrMultihashEntryNotFound string
  | ErrShortBuffer
  | EOF
  | ErrUnexpectedEOF
  | ErrExternal string

datatype panic = PanicSliceBounds | PanicMakeSliceLen

subsection \<open>MultiResolver\<close>

text \<open>
  The \<^verbatim>\<open>Resolve\<close> method of a \<^verbatim>\<open>Resolver\<close> or \<^verbatim>\<open>ResolveValidator\<close>: a call that may
  change the world and returns a hash or an error.
\<close>

type_synonym 's Resolver = "string \<Rightarrow> 's \<Rightarrow> (error + Hash) \<times> 's"

record 's MultiResolver =
  resolvers :: "string \<rightharpoonup> 's Resolver list"
  nameHash :: "string \<Rightarrow> Hash"

text \<open>The two option constructors of the file, and the constructor that applies them in order.\<close>

datatype 's MultiResolverOption =
    WithResolver "'s Resolver" string
  | WithNameHash "string \<Rightarrow> Hash"

fun applyOption :: "'s MultiResolverOption \<Rightarrow> 's MultiResolver \<Rightarrow> 's MultiResolver" where
  "applyOption (WithResolver r tld) m =
     m\<lparr>resolvers := (resolvers m)(tld \<mapsto> (case resolvers m tld of None \<Rightarrow> [] | Some rs \<Rightarrow> rs) @ [r])\<rparr>"
| "applyOption (WithNameHash f) m = m\<lparr>nameHash := f\<rparr>"

definition NewMultiResolver :: "(string \<Rightarrow> Hash) \<Rightarrow> 's MultiResolverOption list \<Rightarrow> 's MultiResolver" where
  "NewMultiResolver EnsNode opts =
     foldl (\<lambda>m opt. applyOption opt m) \<lparr>resolvers = Map.empty, nameHash = EnsNode\<rparr> opts"

text \<open>
  \<^verbatim>\<open>path.Ext\<close> of the Go library: scan backwards from the end, stop at a slash, return the
  suffix that starts at the last dot of the final path element. \<open>Ext_from p n\<close> is the loop
  at index \<open>n - 1\<close>.
\<close>

fun Ext_from :: "string \<Rightarrow> nat \<Rightarrow> string" where
  "Ext_from p 0 = []"
| "Ext_from p (Suc i) =
     (if p ! i = CHR ''/'' then []
      else if p ! i = CHR ''.'' then drop i p
      else Ext_from p i)"

definition path_Ext :: "string \<Rightarrow> string" where
  "path_Ext p = Ext_from p (length p)"

text \<open>
  \<^verbatim>\<open>getResolveValidator\<close>: a missing map key reads as the empty slice; the chain of the
  TLD is taken when the key is present, the default chain when it is not empty.
\<close>

definition getResolveValidator :: "'s MultiResolver \<Rightarrow> string \<Rightarrow> error + 's Resolver list" where
  "getResolveValidator m name =
     (let rs = (case resolvers m [] of None \<Rightarrow> [] | Some l \<Rightarrow> l);
          tld = path_Ext name
      in if tld \<noteq> [] then
           (let tld1 = drop 1 tld
            in case resolvers m tld1 of
                 Some rstld \<Rightarrow> Inr rstld
               | None \<Rightarrow> if length rs = 0 then Inl (NoResolverError tld1) else Inr rs)
         else if length rs = 0 then Inl (NoResolverError tld) else Inr rs)"

text \<open>
  The loop of \<^verbatim>\<open>Resolve\<close>. The third argument is the current value of the named results
  \<open>(h, err)\<close>; a success returns at once, after the last backend the current value is returned.
\<close>

fun Resolve_loop :: "'s Resolver list \<Rightarrow> string \<Rightarrow> error + Hash \<Rightarrow> 's \<Rightarrow> (error + Hash) \<times> 's" where
  "Resolve_loop [] addr cur s = (cur, s)"
| "Resolve_loop (r # rs) addr cur s =
     (case r addr s of
        (Inr h, s1) \<Rightarrow> (Inr h, s1)
      | (Inl e, s1) \<Rightarrow> Resolve_loop rs addr (Inl e) s1)"

definition MultiResolver_Resolve :: "'s MultiResolver \<Rightarrow> 's Resolver" where
  "MultiResolver_Resolve m addr s =
     (case getResolveValidator m addr of
        Inl e \<Rightarrow> (Inl e, s)
      | Inr rs \<Rightarrow> Resolve_loop rs addr (Inr zeroHash) s)"

subsection \<open>Collaborators\<close>

text \<open>
  \<^verbatim>\<open>URI\<close>, \<^verbatim>\<open>ManifestEntry\<close>, the resource record and the decoded multihash carry the
  fields that the file reads or writes.
\<close>

record URI =
  Scheme :: string
  Addr :: string
  Path :: string

record ManifestEntry =
  Hash :: string
  Path :: string
  ContentType :: string
  Mode :: int
  Size :: int
  ModTime :: int
  Status :: int

record resource =
  Multihash :: bool

record DecodedMultihash =
  Code :: nat
  Digest :: bytes

text \<open>
  The \<^verbatim>\<open>Api\<close> struct: the resolver (\<open>None\<close> is the nil interface), the two methods of
  the store and the two methods of the resource handler that the file calls. \<open>'r\<close> is the
  type of the lazy reader that \<^verbatim>\<open>Retrieve\<close> hands out.
\<close>

record ('s, 'r) Api =
  dns :: "'s Resolver option"
  dpaStore :: "bytes \<Rightarrow> int \<Rightarrow> bool \<Rightarrow> 's \<Rightarrow> (error + Key) \<times> 's"
  dpaRetrieve :: "Key \<Rightarrow> 's \<Rightarrow> 'r \<times> bool"
  resourceLookupLatestByName :: "string \<Rightarrow> 's \<Rightarrow> (error + resource) \<times> 's"
  resourceGetContent :: "string \<Rightarrow> 's \<Rightarrow> (error + Key \<times> bytes) \<times> 's"

text \<open>
  Functions and constants that the file uses and that are declared elsewhere (the URI
  parser and its methods, the manifest trie with handle type \<open>'t\<close>, the manifest writer
  with handle type \<open>'w\<close>, the multihash decoder, hexadecimal conversion, the \<^verbatim>\<open>Read\<close>
  method of the lazy reader, and the path, MIME and clock functions of the Go library)
  are parameters. A \<^verbatim>\<open>Read\<close> is given the length of the slice it may fill.
\<close>

record ('s, 't, 'w, 'r) Deps =
  Parse :: "string \<Rightarrow> error + URI"
  uriImmutable :: "URI \<Rightarrow> bool"
  uriKey :: "URI \<Rightarrow> Key option"
  loadManifest :: "Key \<Rightarrow> 's \<Rightarrow> (error + 't) \<times> 's"
  getEntry :: "'t \<Rightarrow> string \<Rightarrow> 's \<Rightarrow> (ManifestEntry option \<times> string) \<times> 's"
  NewManifestWriter :: "Key \<Rightarrow> 's \<Rightarrow> (error + 'w) \<times> 's"
  mwAddEntry :: "'w \<Rightarrow> bytes \<Rightarrow> ManifestEntry \<Rightarrow> 's \<Rightarrow> (error + Key) \<times> 's"
  mwRemoveEntry :: "'w \<Rightarrow> string \<Rightarrow> 's \<Rightarrow> error option \<times> 's"
  mwStore :: "'w \<Rightarrow> 's \<Rightarrow> (error + Key) \<times> 's"
  multihashDecode :: "bytes \<Rightarrow> error + DecodedMultihash"
  KECCAK_256 :: nat
  Hex2Bytes :: "string \<Rightarrow> bytes"
  ResourceContentType :: string
  KeyString :: "Key \<Rightarrow> string"
  readerRead :: "nat \<Rightarrow> 'r \<Rightarrow> (bytes \<times> error option) \<times> 'r"
  filepathJoin :: "string \<Rightarrow> string \<Rightarrow> string"
  filepathExt :: "string \<Rightarrow> string"
  mimeTypeByExtension :: "string \<Rightarrow> string"
  timeNow :: "'s \<Rightarrow> int"

text \<open>Status codes of \<^verbatim>\<open>net/http\<close>.\<close>

definition StatusOK :: int where "StatusOK = 200"
definition StatusMultipleChoices :: int where "StatusMultipleChoices = 300"
definition StatusNotFound :: int where "StatusNotFound = 404"
definition StatusUnprocessableEntity :: int where "StatusUnprocessableEntity = 422"
definition StatusInternalServerError :: int where "StatusInternalServerError = 500"

text \<open>The bytes that \<^verbatim>\<open>strings.NewReader\<close> yields for a Go string.\<close>

definition strBytes :: "string \<Rightarrow> bytes" where
  "strBytes str = map of_char str"

subsection \<open>Api.Resolve\<close>

definition Api_Resolve ::
  "('s, 't, 'w, 'r) Deps \<Rightarrow> ('s, 'r) Api \<Rightarrow> URI \<Rightarrow> 's \<Rightarrow> (error + Key) \<times> 's" where
  "Api_Resolve deps api uri s =
     (if uriImmutable deps uri then
        (case uriKey deps uri of
           None \<Rightarrow> (Inl (ErrImmutableNotHash (Addr uri)), s)
         | Some key \<Rightarrow> (Inr key, s))
      else case dns api of
        None \<Rightarrow>
          (case uriKey deps uri of
             None \<Rightarrow> (Inl (ErrNoDNS (Addr uri)), s)
           | Some key \<Rightarrow> (Inr key, s))
      | Some d \<Rightarrow>
          (case d (Addr uri) s of
             (Inr resolved, s1) \<Rightarrow> (Inr resolved, s1)
           | (Inl e, s1) \<Rightarrow>
               (case uriKey deps uri of
                  None \<Rightarrow> (Inl e, s1)
                | Some key \<Rightarrow> (Inr key, s1))))"

subsection \<open>Api.Put and Api.Get\<close>

text \<open>The manifest text that \<^verbatim>\<open>Put\<close> formats, with \<^verbatim>\<open>%v\<close> of a key and \<^verbatim>\<open>%s\<close> of the content type.\<close>

definition putManifest :: "('s, 't, 'w, 'r) Deps \<Rightarrow> Key \<Rightarrow> string \<Rightarrow> string" where
  "putManifest deps key contentType =
     ''{\"entries\":[{\"hash\":\"'' @ KeyString deps key @ ''\",\"contentType\":\"'' @ contentType @ ''\"}]}''"

definition Put ::
  "('s, 't, 'w, 'r) Deps \<Rightarrow> ('s, 'r) Api \<Rightarrow> string \<Rightarrow> string \<Rightarrow> bool \<Rightarrow> 's \<Rightarrow> (error + Key) \<times> 's" where
  "Put deps api content contentType toEncrypt s =
     (case dpaStore api (strBytes content) (int (length content)) toEncrypt s of
        (Inl e, s1) \<Rightarrow> (Inl e, s1)
      | (Inr key, s1) \<Rightarrow>
          (let manifest = putManifest deps key contentType
           in case dpaStore api (strBytes manifest) (int (length manifest)) toEncrypt s1 of
                (Inl e, s2) \<Rightarrow> (Inl e, s2)
              | (Inr key2, s2) \<Rightarrow> (Inr key2, s2)))"

text \<open>The five results of \<^verbatim>\<open>Get\<close>; \<open>None\<close> is nil.\<close>

record 'r GetResult =
  reader :: "'r option"
  mimeType :: string
  status :: int
  contentKey :: "Key option"
  err :: "error option"

text \<open>
  The end of \<^verbatim>\<open>Get\<close>, reached with an entry and with the outer \<open>err\<close> nil: the entry of
  an ordinary manifest, or the entry found behind a multihash resource.
\<close>

definition Get_content :: "('s, 't, 'w, 'r) Deps \<Rightarrow> ('s, 'r) Api \<Rightarrow> ManifestEntry \<Rightarrow> 's \<Rightarrow> 'r GetResult" where
  "Get_content deps api entry s =
     (let key = Hex2Bytes deps (Hash entry); st = Status entry
      in if st = StatusMultipleChoices then
           \<lparr>reader = None, mimeType = ContentType entry, status = st,
            contentKey = Some key, err = None\<rparr>
         else
           \<lparr>reader = Some (fst (dpaRetrieve api key s)), mimeType = ContentType entry, status = st,
            contentKey = Some key, err = None\<rparr>)"

text \<open>
  The resource branch of \<^verbatim>\<open>Get\<close>. Its \<open>err\<close> variables are declared with \<^verbatim>\<open>:=\<close> inside
  the branch; the one returned when the multihash code differs is the one that
  \<^verbatim>\<open>multihash.Decode\<close> has just set to nil.
\<close>

definition Get_resource ::
  "('s, 't, 'w, 'r) Deps \<Rightarrow> ('s, 'r) Api \<Rightarrow> ManifestEntry \<Rightarrow> string \<Rightarrow> 's \<Rightarrow> 'r GetResult \<times> 's" where
  "Get_resource deps api entry path s =
     (case resourceLookupLatestByName api (Hash entry) s of
        (Inl e, s1) \<Rightarrow>
          (\<lparr>reader = None, mimeType = [], status = StatusNotFound, contentKey = None, err = Some e\<rparr>, s1)
      | (Inr rsrc, s1) \<Rightarrow>
          (case resourceGetContent api (Hash entry) s1 of
             (Inl e, s2) \<Rightarrow>
               (\<lparr>reader = None, mimeType = [], status = StatusNotFound, contentKey = None, err = Some e\<rparr>, s2)
           | (Inr (_, rsrcData), s2) \<Rightarrow>
               if Multihash rsrc then
                 (case multihashDecode deps rsrcData of
                    Inl e \<Rightarrow>
                      (\<lparr>reader = None, mimeType = [], status = StatusInternalServerError,
                        contentKey = None, err = Some e\<rparr>, s2)
                  | Inr decodedMultihash \<Rightarrow>
                      if Code decodedMultihash \<noteq> KECCAK_256 deps then
                        (\<lparr>reader = None, mimeType = [], status = StatusUnprocessableEntity,
                          contentKey = None, err = None\<rparr>, s2)
                      else
                        (case loadManifest deps (Digest decodedMultihash) s2 of
                           (Inl e, s3) \<Rightarrow>
                             (\<lparr>reader = None, mimeType = [], status = StatusNotFound,
                               contentKey = None, err = Some e\<rparr>, s3)
                         | (Inr trie, s3) \<Rightarrow>
                             (case getEntry deps trie path s3 of
                                ((None, _), s4) \<Rightarrow>
                                  (\<lparr>reader = None, mimeType = [], status = StatusNotFound,
                                    contentKey = None, err = Some (ErrMultihashEntryNotFound path)\<rparr>, s4)
                              | ((Some entry2, _), s4) \<Rightarrow> (Get_content deps api entry2 s4, s4))))
               else
                 (\<lparr>reader = None, mimeType = ContentType entry, status = StatusOK,
                   contentKey = None, err = Some (ErrResourceReturn (Hash entry))\<rparr>, s2)))"

definition Get ::
  "('s, 't, 'w, 'r) Deps \<Rightarrow> ('s, 'r) Api \<Rightarrow> Key \<Rightarrow> string \<Rightarrow> 's \<Rightarrow> 'r GetResult \<times> 's" where
  "Get deps api manifestKey path s =
     (case loadManifest deps manifestKey s of
        (Inl e, s1) \<Rightarrow>
          (\<lparr>reader = None, mimeType = [], status = StatusNotFound, contentKey = None, err = Some e\<rparr>, s1)
      | (Inr trie, s1) \<Rightarrow>
          (case getEntry deps trie path s1 of
             ((None, _), s2) \<Rightarrow>
               (\<lparr>reader = None, mimeType = [], status = StatusNotFound, contentKey = None,
                 err = Some (ErrEntryNotFound path)\<rparr>, s2)
           | ((Some entry, _), s2) \<Rightarrow>
               if ContentType entry = ResourceContentType deps then Get_resource deps api entry path s2
               else (Get_content deps api entry s2, s2)))"

subsection \<open>Readers\<close>

text \<open>
  \<^verbatim>\<open>io.ReadAtLeast\<close> of the Go library calls \<^verbatim>\<open>Read\<close> on the rest of the buffer until
  \<open>min\<close> bytes are read or an error comes back. A reader that keeps returning no byte and
  no error makes the loop run forever, which is the value \<open>None\<close>. A \<^verbatim>\<open>Read\<close> cannot
  store more bytes than the slice holds.
\<close>

partial_function (option) ReadAtLeast_loop ::
  "(nat \<Rightarrow> 'x \<Rightarrow> (bytes \<times> error option) \<times> 'x) \<Rightarrow> bytes \<Rightarrow> int \<Rightarrow> nat \<Rightarrow> error option \<Rightarrow> 'x
     \<Rightarrow> (bytes \<times> nat \<times> error option \<times> 'x) option" where
  "ReadAtLeast_loop rd buf mn n er r =
     (if int n < mn \<and> er = None then
        (case rd (length buf - n) r of
           ((d, e), r1) \<Rightarrow>
             ReadAtLeast_loop rd
               (take n buf @ take (length buf - n) d @ drop (n + length (take (length buf - n) d)) buf)
               mn (n + length (take (length buf - n) d)) e r1)
      else Some (buf, n, er, r))"

definition ReadAtLeast ::
  "(nat \<Rightarrow> 'x \<Rightarrow> (bytes \<times> error option) \<times> 'x) \<Rightarrow> bytes \<Rightarrow> int \<Rightarrow> 'x
     \<Rightarrow> (bytes \<times> nat \<times> error option \<times> 'x) option" where
  "ReadAtLeast rd buf mn r =
     (if int (length buf) < mn then Some (buf, 0, Some ErrShortBuffer, r)
      else case ReadAtLeast_loop rd buf mn 0 None r of
        None \<Rightarrow> None
      | Some (buf1, n, er, r1) \<Rightarrow>
          Some (buf1, n,
                (if mn \<le> int n then None
                 else if 0 < n \<and> er = Some EOF then Some ErrUnexpectedEOF
                 else er),
                r1))"

text \<open>\<^verbatim>\<open>bytes.Reader\<close> of the Go library: the slice and the read position.\<close>

record bytesReader =
  rdr_s :: bytes
  rdr_i :: nat

definition bytes_NewReader :: "bytes \<Rightarrow> bytesReader" where
  "bytes_NewReader b = \<lparr>rdr_s = b, rdr_i = 0\<rparr>"

definition bytesReader_Read :: "nat \<Rightarrow> bytesReader \<Rightarrow> (bytes \<times> error option) \<times> bytesReader" where
  "bytesReader_Read len r =
     (if length (rdr_s r) \<le> rdr_i r then (([], Some EOF), r)
      else (let d = take len (drop (rdr_i r) (rdr_s r))
            in ((d, None), r\<lparr>rdr_i := rdr_i r + length d\<rparr>)))"

subsection \<open>The combined buffer of AppendFile\<close>

text \<open>
  The three \<^verbatim>\<open>int64\<close> arguments are 64-bit words read as signed, and \<^verbatim>\<open>int\<close> has
  64 bits. \<^verbatim>\<open>make\<close> panics on a negative length (a length beyond the memory of the
  machine is not modelled), and a slice expression panics when its bound is outside the
  buffer.
\<close>

definition AppendFile_buffSize :: "64 word \<Rightarrow> 64 word \<Rightarrow> 64 word \<Rightarrow> 64 word" where
  "AppendFile_buffSize offset addSize existingSize =
     (let buffSize = offset + addSize
      in if buffSize <s existingSize then existingSize else buffSize)"

text \<open>The allocation and the first two reads: the old content up to \<open>offset\<close>, then the new content.\<close>

definition AppendFile_fill ::
  "('s, 't, 'w, 'r) Deps \<Rightarrow> 'r \<Rightarrow> bytes \<Rightarrow> 64 word \<Rightarrow> 64 word \<Rightarrow> 64 word
     \<Rightarrow> (panic + bytes \<times> 'r) option" where
  "AppendFile_fill deps oldReader content offset addSize buffSize =
     (if sint buffSize < 0 then Some (Inl PanicMakeSliceLen)
      else
        (let buf = replicate (nat (sint buffSize)) (0 :: byte)
         in case ReadAtLeast (readerRead deps) buf (sint offset) oldReader of
              None \<Rightarrow> None
            | Some (buf1, _, _, oldReader1) \<Rightarrow>
                if sint offset < 0 \<or> int (length buf1) < sint offset then Some (Inl PanicSliceBounds)
                else
                  (case ReadAtLeast bytesReader_Read (drop (nat (sint offset)) buf1) (sint addSize)
                          (bytes_NewReader content) of
                     None \<Rightarrow> None
                   | Some (sub, _, _, _) \<Rightarrow>
                       Some (Inr (take (nat (sint offset)) buf1 @ sub, oldReader1)))))"

text \<open>
  The whole buffer computation: the size, the two reads, and the read of the old tail
  under its guard.
\<close>

definition AppendFile_buffer ::
  "('s, 't, 'w, 'r) Deps \<Rightarrow> 'r \<Rightarrow> 64 word \<Rightarrow> bytes \<Rightarrow> 64 word \<Rightarrow> 64 word
     \<Rightarrow> (panic + bytes) option" where
  "AppendFile_buffer deps oldReader existingSize content offset addSize =
     (let buffSize = AppendFile_buffSize offset addSize existingSize
      in case AppendFile_fill deps oldReader content offset addSize buffSize of
           None \<Rightarrow> None
         | Some (Inl p) \<Rightarrow> Some (Inl p)
         | Some (Inr (buf2, oldReader1)) \<Rightarrow>
             if buffSize <s existingSize then
               (if sint addSize < 0 \<or> int (length buf2) < sint addSize then Some (Inl PanicSliceBounds)
                else
                  (case ReadAtLeast (readerRead deps) (drop (nat (sint addSize)) buf2) (sint buffSize)
                          oldReader1 of
                     None \<Rightarrow> None
                   | Some (sub, _, _, _) \<Rightarrow> Some (Inr (take (nat (sint addSize)) buf2 @ sub))))
             else Some (Inr buf2))"

subsection \<open>AddFile, RemoveFile and AppendFile\<close>

text \<open>
  The trim of the leading slash, \<^verbatim>\<open>if path[:1] == "/" { path = path[1:] }\<close>: the slice
  \<^verbatim>\<open>path[:1]\<close> of a string shorter than one byte is out of range and panics.
\<close>

definition trimRootDir :: "string \<Rightarrow> panic + string" where
  "trimRootDir path =
     (if length path < 1 then Inl PanicSliceBounds
      else if take 1 path = ''/'' then Inr (drop 1 path)
      else Inr path)"

text \<open>
  The three operations return a panic, or an error, or their values. The string form of the
  new manifest key is \<^verbatim>\<open>newMkey.String()\<close>.
\<close>

definition AddFile ::
  "('s, 't, 'w, 'r) Deps \<Rightarrow> ('s, 'r) Api \<Rightarrow> string \<Rightarrow> string \<Rightarrow> string \<Rightarrow> bytes \<Rightarrow> bool \<Rightarrow> 's
     \<Rightarrow> (panic + error + Key \<times> string) \<times> 's" where
  "AddFile deps api mhash path fname content nameresolver s =
     (case Parse deps (''bzz:/'' @ mhash) of
        Inl e \<Rightarrow> (Inr (Inl e), s)
      | Inr uri \<Rightarrow>
          (case Api_Resolve deps api uri s of
             (Inl e, s1) \<Rightarrow> (Inr (Inl e), s1)
           | (Inr mkey, s1) \<Rightarrow>
               (case trimRootDir path of
                  Inl p \<Rightarrow> (Inl p, s1)
                | Inr path1 \<Rightarrow>
                    (let entry = \<lparr>Hash = [], Path = filepathJoin deps path1 fname,
                                  ContentType = mimeTypeByExtension deps (filepathExt deps fname),
                                  Mode = 448, Size = int (length content),
                                  ModTime = timeNow deps s1, Status = 0\<rparr>
                     in case NewManifestWriter deps mkey s1 of
                          (Inl e, s2) \<Rightarrow> (Inr (Inl e), s2)
                        | (Inr mw, s2) \<Rightarrow>
                            (case mwAddEntry deps mw content entry s2 of
                               (Inl e, s3) \<Rightarrow> (Inr (Inl e), s3)
                             | (Inr fkey, s3) \<Rightarrow>
                                 (case mwStore deps mw s3 of
                                    (Inl e, s4) \<Rightarrow> (Inr (Inl e), s4)
                                  | (Inr newMkey, s4) \<Rightarrow>
                                      (Inr (Inr (fkey, KeyString deps newMkey)), s4)))))))"

definition RemoveFile ::
  "('s, 't, 'w, 'r) Deps \<Rightarrow> ('s, 'r) Api \<Rightarrow> string \<Rightarrow> string \<Rightarrow> string \<Rightarrow> bool \<Rightarrow> 's
     \<Rightarrow> (panic + error + string) \<times> 's" where
  "RemoveFile deps api mhash path fname nameresolver s =
     (case Parse deps (''bzz:/'' @ mhash) of
        Inl e \<Rightarrow> (Inr (Inl e), s)
      | Inr uri \<Rightarrow>
          (case Api_Resolve deps api uri s of
             (Inl e, s1) \<Rightarrow> (Inr (Inl e), s1)
           | (Inr mkey, s1) \<Rightarrow>
               (case trimRootDir path of
                  Inl p \<Rightarrow> (Inl p, s1)
                | Inr path1 \<Rightarrow>
                    (case NewManifestWriter deps mkey s1 of
                       (Inl e, s2) \<Rightarrow> (Inr (Inl e), s2)
                     | (Inr mw, s2) \<Rightarrow>
                         (case mwRemoveEntry deps mw (filepathJoin deps path1 fname) s2 of
                            (Some e, s3) \<Rightarrow> (Inr (Inl e), s3)
                          | (None, s3) \<Rightarrow>
                              (case mwStore deps mw s3 of
                                 (Inl e, s4) \<Rightarrow> (Inr (Inl e), s4)
                               | (Inr newMkey, s4) \<Rightarrow> (Inr (Inr (KeyString deps newMkey)), s4)))))))"

text \<open>
  The part of \<^verbatim>\<open>AppendFile\<close> after the combined buffer is built: resolve, trim, remove the
  old entry, add the new one with the buffer as content, store.
\<close>

definition AppendFile_edit ::
  "('s, 't, 'w, 'r) Deps \<Rightarrow> ('s, 'r) Api \<Rightarrow> string \<Rightarrow> string \<Rightarrow> string \<Rightarrow> bytes \<Rightarrow> 's
     \<Rightarrow> (panic + error + Key \<times> string) \<times> 's" where
  "AppendFile_edit deps api mhash path fname buf s =
     (case Parse deps (''bzz:/'' @ mhash) of
        Inl e \<Rightarrow> (Inr (Inl e), s)
      | Inr uri \<Rightarrow>
          (case Api_Resolve deps api uri s of
             (Inl e, s1) \<Rightarrow> (Inr (Inl e), s1)
           | (Inr mkey, s1) \<Rightarrow>
               (case trimRootDir path of
                  Inl p \<Rightarrow> (Inl p, s1)
                | Inr path1 \<Rightarrow>
                    (case NewManifestWriter deps mkey s1 of
                       (Inl e, s2) \<Rightarrow> (Inr (Inl e), s2)
                     | (Inr mw, s2) \<Rightarrow>
                         (case mwRemoveEntry deps mw (filepathJoin deps path1 fname) s2 of
                            (Some e, s3) \<Rightarrow> (Inr (Inl e), s3)
                          | (None, s3) \<Rightarrow>
                              (let entry = \<lparr>Hash = [], Path = filepathJoin deps path1 fname,
                                            ContentType = mimeTypeByExtension deps (filepathExt deps fname),
                                            Mode = 448, Size = int (length buf),
                                            ModTime = timeNow deps s3, Status = 0\<rparr>
                               in case mwAddEntry deps mw buf entry s3 of
                                    (Inl e, s4) \<Rightarrow> (Inr (Inl e), s4)
                                  | (Inr fkey, s4) \<Rightarrow>
                                      (case mwStore deps mw s4 of
                                         (Inl e, s5) \<Rightarrow> (Inr (Inl e), s5)
                                       | (Inr newMkey, s5) \<Rightarrow>
                                           (Inr (Inr (fkey, KeyString deps newMkey)), s5))))))))"

definition AppendFile ::
  "('s, 't, 'w, 'r) Deps \<Rightarrow> ('s, 'r) Api \<Rightarrow> string \<Rightarrow> string \<Rightarrow> string \<Rightarrow> 64 word \<Rightarrow> bytes \<Rightarrow> Key
     \<Rightarrow> 64 word \<Rightarrow> 64 word \<Rightarrow> bool \<Rightarrow> 's \<Rightarrow> ((panic + error + Key \<times> string) \<times> 's) option" where
  "AppendFile deps api mhash path fname existingSize content oldKey offset addSize nameresolver s =
     (case AppendFile_buffer deps (fst (dpaRetrieve api oldKey s)) existingSize content offset addSize of
        None \<Rightarrow> None
      | Some (Inl p) \<Rightarrow> Some (Inl p, s)
      | Some (Inr buf) \<Rightarrow> Some (AppendFile_edit deps api mhash path fname buf s))"

section \<open>Notions used to state the properties\<close>

text \<open>The TLD token of a name: its extension without the dot, empty when there is none.\<close>

definition TLD :: "string \<Rightarrow> string" where
  "TLD name = drop 1 (path_Ext name)"

text \<open>
  Every backend of a list fails when the list is called in order: \<open>failing_run\<close> returns
  the world after the last failure, and \<open>None\<close> as soon as one backend succeeds.
\<close>

fun failing_run :: "'s Resolver list \<Rightarrow> string \<Rightarrow> 's \<Rightarrow> 's option" where
  "failing_run [] addr s = Some s"
| "failing_run (r # rs) addr s =
     (case r addr s of
        (Inl e, s1) \<Rightarrow> failing_run rs addr s1
      | (Inr h, s1) \<Rightarrow> None)"

text \<open>
  The resolution policy as the specification words it. Backends are tried in order; the
  first success is the answer, and the answer of the last backend stands when all before it
  failed. Nothing is said about a chain without backends. The chain is the one registered
  for the exact TLD, otherwise the default chain, and without either the result is the
  no-resolver error for the TLD.
\<close>

fun try_in_order :: "'s Resolver list \<Rightarrow> string \<Rightarrow> 's \<Rightarrow> ((error + Hash) \<times> 's) option" where
  "try_in_order [] addr s = None"
| "try_in_order [r] addr s = Some (r addr s)"
| "try_in_order (r # rs) addr s =
     (case r addr s of
        (Inr h, s1) \<Rightarrow> Some (Inr h, s1)
      | (Inl e, s1) \<Rightarrow> try_in_order rs addr s1)"

definition Resolve_spec :: "'s MultiResolver \<Rightarrow> string \<Rightarrow> 's \<Rightarrow> ((error + Hash) \<times> 's) option" where
  "Resolve_spec m name s =
     (case resolvers m (TLD name) of
        Some rs \<Rightarrow> try_in_order rs name s
      | None \<Rightarrow>
          (case resolvers m [] of
             Some rs \<Rightarrow> try_in_order rs name s
           | None \<Rightarrow> Some (Inl (NoResolverError (TLD name)), s)))"

section \<open>An example deployment\<close>

text \<open>
  A small world in which the operations can be run: a store that addresses a block by its
  own bytes, keys printed in hexadecimal, manifests of the single-entry form that
  \<^verbatim>\<open>Put\<close> writes, a table of resources, and a log of resolver calls.
\<close>

record World =
  blocks :: "(Key \<times> bytes) list"
  resources :: "(string \<times> bool \<times> bytes) list"
  calls :: "string list"

definition bytesStr :: "bytes \<Rightarrow> string" where
  "bytesStr b = map (\<lambda>w. char_of (unat w)) b"

definition hexDigit :: "nat \<Rightarrow> char" where
  "hexDigit n = ''0123456789abcdef'' ! n"

definition exKeyString :: "Key \<Rightarrow> string" where
  "exKeyString k = concat (map (\<lambda>b. [hexDigit (unat b div 16), hexDigit (unat b mod 16)]) k)"

definition isHexChar :: "char \<Rightarrow> bool" where
  "isHexChar c = (c \<in> set ''0123456789abcdef'')"

definition hexVal :: "char \<Rightarrow> nat" where
  "hexVal c = (if of_char c < (58 :: nat) then of_char c - 48 else of_char c - 87)"

fun exHex2Bytes :: "string \<Rightarrow> bytes" where
  "exHex2Bytes (a # b # r) = of_nat (hexVal a * 16 + hexVal b) # exHex2Bytes r"
| "exHex2Bytes r = []"

fun stripPrefix :: "string \<Rightarrow> string \<Rightarrow> string option" where
  "stripPrefix [] str = Some str"
| "stripPrefix (p # ps) [] = None"
| "stripPrefix (p # ps) (c # cs) = (if p = c then stripPrefix ps cs else None)"

definition exDecode :: "string \<Rightarrow> ManifestEntry list option" where
  "exDecode str =
     (case stripPrefix ''{\"entries\":[{\"hash\":\"'' str of
        None \<Rightarrow> None
      | Some r1 \<Rightarrow>
          (case stripPrefix ''\",\"contentType\":\"'' (dropWhile (\<lambda>c. c \<noteq> CHR ''\"'') r1) of
             None \<Rightarrow> None
           | Some r2 \<Rightarrow>
               if dropWhile (\<lambda>c. c \<noteq> CHR ''\"'') r2 = ''\"}]}'' then
                 Some [\<lparr>Hash = takeWhile (\<lambda>c. c \<noteq> CHR ''\"'') r1, Path = [],
                        ContentType = takeWhile (\<lambda>c. c \<noteq> CHR ''\"'') r2,
                        Mode = 0, Size = 0, ModTime = 0, Status = 0\<rparr>]
               else None))"

definition exStore :: "bytes \<Rightarrow> int \<Rightarrow> bool \<Rightarrow> World \<Rightarrow> (error + Key) \<times> World" where
  "exStore b sz toEncrypt s = (Inr b, s\<lparr>blocks := (b, b) # blocks s\<rparr>)"

definition exRetrieve :: "Key \<Rightarrow> World \<Rightarrow> bytesReader \<times> bool" where
  "exRetrieve k s =
     (bytes_NewReader (case map_of (blocks s) k of None \<Rightarrow> [] | Some b \<Rightarrow> b), False)"

definition exLoadManifest :: "Key \<Rightarrow> World \<Rightarrow> (error + ManifestEntry list) \<times> World" where
  "exLoadManifest k s =
     (case map_of (blocks s) k of
        None \<Rightarrow> (Inl (ErrExternal ''chunk not found''), s)
      | Some b \<Rightarrow>
          (case exDecode (bytesStr b) of
             None \<Rightarrow> (Inl (ErrExternal ''invalid manifest''), s)
           | Some es \<Rightarrow> (Inr es, s)))"

definition exGetEntry ::
  "ManifestEntry list \<Rightarrow> string \<Rightarrow> World \<Rightarrow> (ManifestEntry option \<times> string) \<times> World" where
  "exGetEntry t path s = ((find (\<lambda>e. ManifestEntry.Path e = path) t, path), s)"

definition exLookupLatestByName :: "string \<Rightarrow> World \<Rightarrow> (error + resource) \<times> World" where
  "exLookupLatestByName name s =
     (case map_of (resources s) name of
        None \<Rightarrow> (Inl (ErrExternal ''resource not found''), s)
      | Some (mh, d) \<Rightarrow> (Inr \<lparr>Multihash = mh\<rparr>, s))"

definition exGetContent :: "string \<Rightarrow> World \<Rightarrow> (error + Key \<times> bytes) \<times> World" where
  "exGetContent name s =
     (case map_of (resources s) name of
        None \<Rightarrow> (Inl (ErrExternal ''resource not found''), s)
      | Some (mh, d) \<Rightarrow> (Inr (d, d), s))"

text \<open>A multihash record: one byte of code, one byte of length, the digest.\<close>

definition exMultihashDecode :: "bytes \<Rightarrow> error + DecodedMultihash" where
  "exMultihashDecode b =
     (case b of
        c # l # d \<Rightarrow>
          if unat l = length d then Inr \<lparr>Code = unat c, Digest = d\<rparr>
          else Inl (ErrExternal ''multihash length inconsistent'')
      | _ \<Rightarrow> Inl (ErrExternal ''multihash too short''))"

definition exParse :: "string \<Rightarrow> error + URI" where
  "exParse str =
     (case stripPrefix ''bzz:/'' str of
        None \<Rightarrow> Inl (ErrExternal ''unknown scheme'')
      | Some r \<Rightarrow>
          Inr \<lparr>Scheme = ''bzz'', Addr = takeWhile (\<lambda>c. c \<noteq> CHR ''/'') r,
               Path = drop 1 (dropWhile (\<lambda>c. c \<noteq> CHR ''/'') r)\<rparr>)"

definition exImmutable :: "URI \<Rightarrow> bool" where
  "exImmutable u = (Scheme u = ''bzz-immutable'')"

definition exKey :: "URI \<Rightarrow> Key option" where
  "exKey u =
     (if Addr u \<noteq> [] \<and> even (length (Addr u)) \<and> list_all isHexChar (Addr u)
      then Some (exHex2Bytes (Addr u)) else None)"

text \<open>The example deployment is read-only: no manifest writer can be opened.\<close>

definition exDeps :: "(World, ManifestEntry list, unit, bytesReader) Deps" where
  "exDeps =
     \<lparr>Parse = exParse, uriImmutable = exImmutable, uriKey = exKey,
      loadManifest = exLoadManifest, getEntry = exGetEntry,
      NewManifestWriter = (\<lambda>k s. (Inl (ErrExternal ''read-only''), s)),
      mwAddEntry = (\<lambda>w b e s. (Inl (ErrExternal ''read-only''), s)),
      mwRemoveEntry = (\<lambda>w p s. (Some (ErrExternal ''read-only''), s)),
      mwStore = (\<lambda>w s. (Inl (ErrExternal ''read-only''), s)),
      multihashDecode = exMultihashDecode, KECCAK_256 = 27,
      Hex2Bytes = exHex2Bytes, ResourceContentType = ''application/bzz-resource'',
      KeyString = exKeyString, readerRead = bytesReader_Read,
      filepathJoin = (\<lambda>a b. if a = [] then b else a @ ''/'' @ b),
      filepathExt = path_Ext,
      mimeTypeByExtension = (\<lambda>e. if e = ''.txt'' then ''text/plain; charset=utf-8'' else []),
      timeNow = (\<lambda>s. 0)\<rparr>"

definition exApi :: "(World, bytesReader) Api" where
  "exApi =
     \<lparr>dns = None, dpaStore = exStore, dpaRetrieve = exRetrieve,
      resourceLookupLatestByName = exLookupLatestByName, resourceGetContent = exGetContent\<rparr>"

definition exEmpty :: World where
  "exEmpty = \<lparr>blocks = [], resources = [], calls = []\<rparr>"

text \<open>Three resolver backends that log their calls: two that fail and one that answers.\<close>

definition timeoutR :: "World Resolver" where
  "timeoutR addr s = (Inl (ErrExternal ''timeout''), s\<lparr>calls := calls s @ [''test-1: '' @ addr]\<rparr>)"

definition downR :: "World Resolver" where
  "downR addr s = (Inl (ErrExternal ''unreachable''), s\<lparr>calls := calls s @ [''test-2: '' @ addr]\<rparr>)"

definition upR :: "World Resolver" where
  "upR addr s = (Inr (replicate 32 1), s\<lparr>calls := calls s @ [''default: '' @ addr]\<rparr>)"

text \<open>A default chain that answers and a chain for the TLD \<open>test\<close> whose backends fail.\<close>

definition exResolver :: "World MultiResolver" where
  "exResolver =
     NewMultiResolver (\<lambda>n. zeroHash)
       [WithResolver upR [], WithResolver timeoutR ''test'', WithResolver downR ''test'']"

text \<open>
  Manifests in the store of the example: the one that \<^verbatim>\<open>Put\<close> writes for the content
  \<open>hi\<close> with a given content type, and a resource pointer for the resource \<open>news\<close>.
\<close>

definition exManifest :: "string \<Rightarrow> string" where
  "exManifest ct = ''{\"entries\":[{\"hash\":\"6869\",\"contentType\":\"'' @ ct @ ''\"}]}''"

definition exPointer :: string where
  "exPointer = ''{\"entries\":[{\"hash\":\"news\",\"contentType\":\"application/bzz-resource\"}]}''"

definition exStored :: "string \<Rightarrow> World" where
  "exStored ct =
     \<lparr>blocks = [(strBytes (exManifest ct), strBytes (exManifest ct)), (strBytes ''hi'', strBytes ''hi'')],
      resources = [], calls = []\<rparr>"

definition exNews :: "bool \<Rightarrow> bytes \<Rightarrow> World" where
  "exNews mh d =
     \<lparr>blocks = [(strBytes exPointer, strBytes exPointer)], resources = [(''news'', mh, d)], calls = []\<rparr>"

text \<open>A store that holds the three bytes \<open>old\<close> as a file content.\<close>

definition exOld :: World where
  "exOld = \<lparr>blocks = [(strBytes ''old'', strBytes ''old'')], resources = [], calls = []\<rparr>"

section \<open>A content-addressed deployment\<close>

text \<open>
  Modelled from the spec: the content store behind \<^verbatim>\<open>dpa.Store\<close> and \<^verbatim>\<open>dpa.Retrieve\<close>,
  which is outside the file. A write keeps the block under its key, the digest \<open>H\<close> of
  its bytes, and returns the key; \<^verbatim>\<open>Retrieve\<close> gives a reader over the block that is
  kept under a key (\<open>exRetrieve\<close>).
\<close>

definition casStore :: "(bytes \<Rightarrow> Key) \<Rightarrow> bytes \<Rightarrow> int \<Rightarrow> bool \<Rightarrow> World \<Rightarrow> (error + Key) \<times> World" where
  "casStore H b sz toEncrypt s = (Inr (H b), s\<lparr>blocks := (H b, b) # blocks s\<rparr>)"

text \<open>
  Modelled from the spec: the reading of a stored manifest by \<^verbatim>\<open>loadManifest\<close>, which is
  outside the file. The block of the root key is read as the JSON text of a single-entry
  manifest. Only text that JSON writes as it is belongs to the model: ASCII characters
  from the space on, without the double quote and the backslash; a manifest with any
  other character in a string is refused.
\<close>

definition jsonPlain :: "char \<Rightarrow> bool" where
  "jsonPlain c =
     (32 \<le> (of_char c :: nat) \<and> (of_char c :: nat) < 128 \<and> c \<noteq> CHR 0x22 \<and> c \<noteq> CHR 0x5C)"

definition decodeManifest :: "string \<Rightarrow> ManifestEntry list option" where
  "decodeManifest str =
     (case exDecode str of
        Some [e] \<Rightarrow>
          if list_all jsonPlain (Hash e) \<and> list_all jsonPlain (ContentType e) then Some [e]
          else None
      | _ \<Rightarrow> None)"

definition casLoadManifest :: "Key \<Rightarrow> World \<Rightarrow> (error + ManifestEntry list) \<times> World" where
  "casLoadManifest k s =
     (case map_of (blocks s) k of
        None \<Rightarrow> (Inl (ErrExternal ''chunk not found''), s)
      | Some b \<Rightarrow>
          (case decodeManifest (bytesStr b) of
             None \<Rightarrow> (Inl (ErrExternal ''invalid manifest''), s)
           | Some es \<Rightarrow> (Inr es, s)))"

text \<open>
  Modelled from the spec: the remaining collaborators of \<^verbatim>\<open>Put\<close> and \<^verbatim>\<open>Get\<close> that are
  outside the file. \<^verbatim>\<open>getEntry\<close> returns the entry whose path is exactly the path asked
  for (\<open>exGetEntry\<close>), and a key is printed and parsed as a hexadecimal digest
  (\<open>exKeyString\<close>, \<open>exHex2Bytes\<close>).
\<close>

definition casDeps :: "(World, ManifestEntry list, unit, bytesReader) Deps" where
  "casDeps = exDeps\<lparr>loadManifest := casLoadManifest\<rparr>"

definition casApi :: "(bytes \<Rightarrow> Key) \<Rightarrow> (World, bytesReader) Api" where
  "casApi H = exApi\<lparr>dpaStore := casStore H\<rparr>"

text \<open>
  The root key that \<^verbatim>\<open>Put\<close> returns in this deployment and the store it leaves: the
  old store with the content block and the manifest block added.
\<close>

definition putRoot :: "(bytes \<Rightarrow> Key) \<Rightarrow> string \<Rightarrow> string \<Rightarrow> Key" where
  "putRoot H content contentType = H (strBytes (putManifest casDeps (H (strBytes content)) contentType))"

definition putWorld :: "(bytes \<Rightarrow> Key) \<Rightarrow> string \<Rightarrow> string \<Rightarrow> World \<Rightarrow> World" where
  "putWorld H content contentType s =
     s\<lparr>blocks :=
         (putRoot H content contentType,
          strBytes (putManifest casDeps (H (strBytes content)) contentType))
         # (H (strBytes content), strBytes content) # blocks s\<rparr>"

section \<open>Resolver chain\<close>

lemma applyOption_nonempty:
  assumes "\<forall>t rs. resolvers m t = Some rs \<longrightarrow> rs \<noteq> []"
  shows "\<forall>t rs. resolvers (applyOption opt m) t = Some rs \<longrightarrow> rs \<noteq> []"
  using assms by (cases opt) auto

lemma foldl_applyOption_nonempty:
  "\<forall>t rs. resolvers m t = Some rs \<longrightarrow> rs \<noteq> [] \<Longrightarrow>
   \<forall>t rs. resolvers (foldl (\<lambda>m opt. applyOption opt m) m opts) t = Some rs \<longrightarrow> rs \<noteq> []"
proof (induction opts arbitrary: m)
  case Nil
  then show ?case by simp
next
  case (Cons opt opts)
  have "\<forall>t rs. resolvers (applyOption opt m) t = Some rs \<longrightarrow> rs \<noteq> []"
    using Cons.prems by (rule applyOption_nonempty)
  then show ?case using Cons.IH by simp
qed

lemma NewMultiResolver_nonempty:
  "resolvers (NewMultiResolver E opts) t = Some rs \<Longrightarrow> rs \<noteq> []"
proof -
  have "\<forall>t rs. resolvers (NewMultiResolver E opts) t = Some rs \<longrightarrow> rs \<noteq> []"
    unfolding NewMultiResolver_def by (rule foldl_applyOption_nonempty) simp
  then show "resolvers (NewMultiResolver E opts) t = Some rs \<Longrightarrow> rs \<noteq> []" by blast
qed

lemma Resolve_loop_after_failures:
  "failing_run pre addr s = Some s1 \<Longrightarrow> r addr s1 = res \<Longrightarrow>
   Resolve_loop (pre @ [r]) addr cur s = res"
proof (induction pre arbitrary: s cur)
  case Nil
  then show ?case by (auto split: prod.splits sum.splits)
next
  case (Cons a pre)
  then show ?case by (auto split: prod.splits sum.splits)
qed

lemma try_in_order_loop:
  "rs \<noteq> [] \<Longrightarrow> try_in_order rs addr s = Some (Resolve_loop rs addr cur s)"
proof (induction rs addr s arbitrary: cur rule: try_in_order.induct)
  case (1 addr s)
  then show ?case by simp
next
  case (2 r addr s)
  then show ?case by (auto split: prod.splits sum.splits)
next
  case (3 r v va addr s)
  then show ?case by (auto split: prod.splits sum.splits)
qed

lemma getResolveValidator_TLD:
  "getResolveValidator m name =
     (case resolvers m (TLD name) of
        Some rs \<Rightarrow>
          if path_Ext name = [] \<and> rs = [] then Inl (NoResolverError []) else Inr rs
      | None \<Rightarrow>
          (case resolvers m [] of
             Some rs \<Rightarrow> if rs = [] then Inl (NoResolverError (TLD name)) else Inr rs
           | None \<Rightarrow> Inl (NoResolverError (TLD name))))"
  by (auto simp: getResolveValidator_def TLD_def Let_def split: option.splits)

lemma Resolve_spec_nonempty:
  assumes ne: "\<And>t rs. resolvers m t = Some rs \<Longrightarrow> rs \<noteq> []"
  shows "Resolve_spec m name s = Some (MultiResolver_Resolve m name s)"
proof (cases "resolvers m (TLD name)")
  case None
  show ?thesis
  proof (cases "resolvers m []")
    case nodefault: None
    with None show ?thesis
      by (simp add: Resolve_spec_def MultiResolver_Resolve_def getResolveValidator_TLD)
  next
    case (Some rs)
    then have "rs \<noteq> []" by (rule ne)
    with None Some show ?thesis
      by (simp add: Resolve_spec_def MultiResolver_Resolve_def getResolveValidator_TLD
          try_in_order_loop)
  qed
next
  case (Some rs)
  then have "rs \<noteq> []" by (rule ne)
  with Some show ?thesis
    by (simp add: Resolve_spec_def MultiResolver_Resolve_def getResolveValidator_TLD
        try_in_order_loop)
qed

lemma TLD_x_test: "TLD ''x.test'' = ''test''"
  by (simp add: TLD_def path_Ext_def)

lemma exResolver_chains:
  "resolvers exResolver = [[] \<mapsto> [upR], ''test'' \<mapsto> [timeoutR, downR]]"
  by (simp add: exResolver_def NewMultiResolver_def)

text \<open>
  C1. When a chain is registered for the non-empty TLD of a name and every backend of that
  chain fails, resolution returns the failure of the chain's last backend and leaves the
  world as that backend left it, whatever the default chain is: present or absent,
  answering or failing. The default chain is not called.
\<close>

theorem tld_chain_only:
  assumes "TLD name \<noteq> []"
    and "resolvers m (TLD name) = Some (pre @ [r])"
    and "failing_run pre name s = Some s1"
    and "r name s1 = (Inl e, s2)"
  shows "MultiResolver_Resolve (m\<lparr>resolvers := (resolvers m)([] := d)\<rparr>) name s = (Inl e, s2)"
proof -
  have "path_Ext name \<noteq> []"
    using assms(1) by (auto simp: TLD_def)
  then have "getResolveValidator (m\<lparr>resolvers := (resolvers m)([] := d)\<rparr>) name = Inr (pre @ [r])"
    using assms(1,2) by (simp add: getResolveValidator_def TLD_def Let_def)
  moreover have "Resolve_loop (pre @ [r]) name (Inr zeroHash) s = (Inl e, s2)"
    using assms(3,4) by (rule Resolve_loop_after_failures)
  ultimately show ?thesis
    by (simp add: MultiResolver_Resolve_def)
qed

theorem tld_chain_only_witness:
  "TLD ''x.test'' \<noteq> []
   \<and> resolvers exResolver (TLD ''x.test'') = Some ([timeoutR] @ [downR])
   \<and> failing_run [timeoutR] ''x.test'' exEmpty = Some (exEmpty\<lparr>calls := [''test-1: x.test'']\<rparr>)
   \<and> downR ''x.test'' (exEmpty\<lparr>calls := [''test-1: x.test'']\<rparr>)
       = (Inl (ErrExternal ''unreachable''), exEmpty\<lparr>calls := [''test-1: x.test'', ''test-2: x.test'']\<rparr>)
   \<and> resolvers exResolver [] = Some [upR]
   \<and> fst (upR ''x.test'' exEmpty) = Inr (replicate 32 1)
   \<and> MultiResolver_Resolve exResolver ''x.test'' exEmpty
       = (Inl (ErrExternal ''unreachable''), exEmpty\<lparr>calls := [''test-1: x.test'', ''test-2: x.test'']\<rparr>)"
proof -
  have h1: "TLD ''x.test'' \<noteq> []"
    by (simp add: TLD_x_test)
  have h2: "resolvers exResolver (TLD ''x.test'') = Some ([timeoutR] @ [downR])"
    by (simp add: TLD_x_test exResolver_chains)
  have h3: "failing_run [timeoutR] ''x.test'' exEmpty = Some (exEmpty\<lparr>calls := [''test-1: x.test'']\<rparr>)"
    by (simp add: timeoutR_def exEmpty_def)
  have h4: "downR ''x.test'' (exEmpty\<lparr>calls := [''test-1: x.test'']\<rparr>)
       = (Inl (ErrExternal ''unreachable''), exEmpty\<lparr>calls := [''test-1: x.test'', ''test-2: x.test'']\<rparr>)"
    by (simp add: downR_def exEmpty_def)
  have h5: "resolvers exResolver [] = Some [upR]"
    by (simp add: exResolver_chains)
  have h6: "fst (upR ''x.test'' exEmpty) = Inr (replicate 32 1)"
    by (simp add: upR_def)
  have same: "exResolver\<lparr>resolvers := (resolvers exResolver)([] := resolvers exResolver [])\<rparr> = exResolver"
    by simp
  have "MultiResolver_Resolve exResolver ''x.test'' exEmpty
      = (Inl (ErrExternal ''unreachable''), exEmpty\<lparr>calls := [''test-1: x.test'', ''test-2: x.test'']\<rparr>)"
    using tld_chain_only [OF h1 h2 h3 h4, of "resolvers exResolver []"] unfolding same .
  with h1 h2 h3 h4 h5 h6 show ?thesis
    by (intro conjI)
qed

text \<open>
  C6. On every resolver built by the constructor, \<^verbatim>\<open>Resolve\<close> returns what the policy of
  the specification determines: the chain of the exact TLD, otherwise the default chain,
  otherwise the no-resolver error for the TLD; within the chain the hash of the first
  backend that succeeds, and the error of the last backend when all fail.
\<close>

theorem resolve_follows_policy:
  "Resolve_spec (NewMultiResolver EnsNode opts) name s
     = Some (MultiResolver_Resolve (NewMultiResolver EnsNode opts) name s)"
  by (rule Resolve_spec_nonempty) (rule NewMultiResolver_nonempty)


section \<open>Api.Resolve\<close>

lemma exHex_6869: "exHex2Bytes ''6869'' = strBytes ''hi''"
  by (simp add: strBytes_def hexVal_def)

lemma exKey_6869: "exKey \<lparr>Scheme = sch, Addr = ''6869'', Path = p\<rparr> = Some (strBytes ''hi'')"
  by (simp add: exKey_def isHexChar_def exHex_6869 del: exHex2Bytes.simps)

lemma exKey_x_test: "exKey \<lparr>Scheme = sch, Addr = ''x.test'', Path = p\<rparr> = None"
  by (simp add: exKey_def isHexChar_def)

text \<open>
  C7. For an immutable URI, \<^verbatim>\<open>Resolve\<close> returns the address as a key when it parses as
  a hash and the immutable-address error otherwise. The world is unchanged and the result
  is the same for every resolver \<open>d\<close> that the Api holds, so no resolver is called.
\<close>

theorem immutable_never_resolved:
  assumes "uriImmutable deps uri"
  shows "Api_Resolve deps (api\<lparr>dns := d\<rparr>) uri s
           = ((case uriKey deps uri of
                 None \<Rightarrow> Inl (ErrImmutableNotHash (Addr uri))
               | Some key \<Rightarrow> Inr key), s)"
  using assms by (simp add: Api_Resolve_def split: option.splits)

theorem immutable_never_resolved_witness:
  "uriImmutable exDeps \<lparr>Scheme = ''bzz-immutable'', Addr = ''6869'', Path = []\<rparr>
   \<and> Api_Resolve exDeps (exApi\<lparr>dns := Some (MultiResolver_Resolve exResolver)\<rparr>)
        \<lparr>Scheme = ''bzz-immutable'', Addr = ''6869'', Path = []\<rparr> exEmpty
       = (Inr (strBytes ''hi''), exEmpty)
   \<and> uriImmutable exDeps \<lparr>Scheme = ''bzz-immutable'', Addr = ''x.test'', Path = []\<rparr>
   \<and> Api_Resolve exDeps (exApi\<lparr>dns := Some (MultiResolver_Resolve exResolver)\<rparr>)
        \<lparr>Scheme = ''bzz-immutable'', Addr = ''x.test'', Path = []\<rparr> exEmpty
       = (Inl (ErrImmutableNotHash ''x.test''), exEmpty)"
proof -
  have h1: "uriImmutable exDeps \<lparr>Scheme = ''bzz-immutable'', Addr = ''6869'', Path = []\<rparr>"
    by (simp add: exDeps_def exImmutable_def)
  have h2: "uriImmutable exDeps \<lparr>Scheme = ''bzz-immutable'', Addr = ''x.test'', Path = []\<rparr>"
    by (simp add: exDeps_def exImmutable_def)
  have k1: "uriKey exDeps \<lparr>Scheme = ''bzz-immutable'', Addr = ''6869'', Path = []\<rparr> = Some (strBytes ''hi'')"
    by (simp add: exDeps_def exKey_6869)
  have k2: "uriKey exDeps \<lparr>Scheme = ''bzz-immutable'', Addr = ''x.test'', Path = []\<rparr> = None"
    by (simp add: exDeps_def exKey_x_test)
  show ?thesis
    using immutable_never_resolved [OF h1, where api = exApi and d = "Some (MultiResolver_Resolve exResolver)" and s = exEmpty]
      immutable_never_resolved [OF h2, where api = exApi and d = "Some (MultiResolver_Resolve exResolver)" and s = exEmpty]
      h1 h2
    by (simp add: k1 k2)
qed

text \<open>
  C8. For a URI that is not immutable and an Api with a resolver, when the resolver fails
  the address is parsed as a hash: the key is returned when that succeeds, and the
  resolver's error only when it does not.
\<close>

theorem resolve_hash_last_resort:
  assumes "\<not> uriImmutable deps uri"
    and "dns api = Some d"
    and "d (Addr uri) s = (Inl e, s1)"
  shows "Api_Resolve deps api uri s
           = ((case uriKey deps uri of None \<Rightarrow> Inl e | Some key \<Rightarrow> Inr key), s1)"
  using assms by (simp add: Api_Resolve_def split: option.splits)

theorem resolve_hash_last_resort_witness:
  "\<not> uriImmutable exDeps \<lparr>Scheme = ''bzz'', Addr = ''6869'', Path = []\<rparr>
   \<and> dns (exApi\<lparr>dns := Some downR\<rparr>) = Some downR
   \<and> downR ''6869'' exEmpty = (Inl (ErrExternal ''unreachable''), exEmpty\<lparr>calls := [''test-2: 6869'']\<rparr>)
   \<and> Api_Resolve exDeps (exApi\<lparr>dns := Some downR\<rparr>) \<lparr>Scheme = ''bzz'', Addr = ''6869'', Path = []\<rparr> exEmpty
       = (Inr (strBytes ''hi''), exEmpty\<lparr>calls := [''test-2: 6869'']\<rparr>)
   \<and> \<not> uriImmutable exDeps \<lparr>Scheme = ''bzz'', Addr = ''x.test'', Path = []\<rparr>
   \<and> downR ''x.test'' exEmpty = (Inl (ErrExternal ''unreachable''), exEmpty\<lparr>calls := [''test-2: x.test'']\<rparr>)
   \<and> Api_Resolve exDeps (exApi\<lparr>dns := Some downR\<rparr>) \<lparr>Scheme = ''bzz'', Addr = ''x.test'', Path = []\<rparr> exEmpty
       = (Inl (ErrExternal ''unreachable''), exEmpty\<lparr>calls := [''test-2: x.test'']\<rparr>)"
proof -
  have h1: "\<not> uriImmutable exDeps \<lparr>Scheme = ''bzz'', Addr = ''6869'', Path = []\<rparr>"
    by (simp add: exDeps_def exImmutable_def)
  have h1': "\<not> uriImmutable exDeps \<lparr>Scheme = ''bzz'', Addr = ''x.test'', Path = []\<rparr>"
    by (simp add: exDeps_def exImmutable_def)
  have h2: "dns (exApi\<lparr>dns := Some downR\<rparr>) = Some downR"
    by simp
  have h3: "downR (Addr \<lparr>Scheme = ''bzz'', Addr = ''6869'', Path = []\<rparr>) exEmpty
      = (Inl (ErrExternal ''unreachable''), exEmpty\<lparr>calls := [''test-2: 6869'']\<rparr>)"
    by (simp add: downR_def exEmpty_def)
  have h3': "downR (Addr \<lparr>Scheme = ''bzz'', Addr = ''x.test'', Path = []\<rparr>) exEmpty
      = (Inl (ErrExternal ''unreachable''), exEmpty\<lparr>calls := [''test-2: x.test'']\<rparr>)"
    by (simp add: downR_def exEmpty_def)
  have k1: "uriKey exDeps \<lparr>Scheme = ''bzz'', Addr = ''6869'', Path = []\<rparr> = Some (strBytes ''hi'')"
    by (simp add: exDeps_def exKey_6869)
  have k2: "uriKey exDeps \<lparr>Scheme = ''bzz'', Addr = ''x.test'', Path = []\<rparr> = None"
    by (simp add: exDeps_def exKey_x_test)
  show ?thesis
    using resolve_hash_last_resort [OF h1 h2 h3] resolve_hash_last_resort [OF h1' h2 h3'] h1 h1' h3 h3'
    by (simp add: k1 k2)
qed


section \<open>Api.Get on resource pointers\<close>

lemma unat_of_char: "unat (of_char c :: byte) = of_char c"
proof -
  have "unat (of_nat (of_char c) :: byte) = of_char c"
    by (simp add: unat_of_nat)
  then show ?thesis
    by (simp only: of_nat_of_char)
qed

lemma bytesStr_strBytes: "bytesStr (strBytes str) = str"
  by (induction str) (simp_all add: bytesStr_def strBytes_def unat_of_char)

lemma strBytes_eq: "(strBytes a = strBytes b) = (a = b)"
  by (metis bytesStr_strBytes)

lemma exDecode_pointer:
  "exDecode exPointer =
     Some [\<lparr>Hash = ''news'', Path = [], ContentType = ''application/bzz-resource'',
            Mode = 0, Size = 0, ModTime = 0, Status = 0\<rparr>]"
  by (simp add: exDecode_def exPointer_def)

lemma exNews_load:
  "loadManifest exDeps (strBytes exPointer) (exNews mh d)
     = (Inr [\<lparr>Hash = ''news'', Path = [], ContentType = ''application/bzz-resource'',
               Mode = 0, Size = 0, ModTime = 0, Status = 0\<rparr>], exNews mh d)"
  by (simp add: exDeps_def exLoadManifest_def exNews_def bytesStr_strBytes exDecode_pointer)

lemma exNews_entry:
  "getEntry exDeps [\<lparr>Hash = ''news'', Path = [], ContentType = ''application/bzz-resource'',
                     Mode = 0, Size = 0, ModTime = 0, Status = 0\<rparr>] [] (exNews mh d)
     = ((Some \<lparr>Hash = ''news'', Path = [], ContentType = ''application/bzz-resource'',
                Mode = 0, Size = 0, ModTime = 0, Status = 0\<rparr>, []), exNews mh d)"
  by (simp add: exDeps_def exGetEntry_def)

lemma exNews_lookup:
  "resourceLookupLatestByName exApi ''news'' (exNews mh d) = (Inr \<lparr>Multihash = mh\<rparr>, exNews mh d)"
  by (simp add: exApi_def exLookupLatestByName_def exNews_def)

lemma exNews_content:
  "resourceGetContent exApi ''news'' (exNews mh d) = (Inr (d, d), exNews mh d)"
  by (simp add: exApi_def exGetContent_def exNews_def)

lemma exDeps_marker: "ResourceContentType exDeps = ''application/bzz-resource''"
  by (simp add: exDeps_def)

text \<open>
  C2, as the code has it. For a resource-pointer entry whose resource is not flagged as
  multihash, \<^verbatim>\<open>Get\<close> returns the typed error \<^verbatim>\<open>ErrResourceReturn\<close> with the entry's hash
  field in the error result, together with a nil reader, the entry's content type (the
  resource-pointer marker), status 200 and a nil content key.
\<close>

theorem resource_raw_typed_error:
  assumes "loadManifest deps manifestKey s = (Inr trie, s1)"
    and "getEntry deps trie path s1 = ((Some entry, fullpath), s2)"
    and "ContentType entry = ResourceContentType deps"
    and "resourceLookupLatestByName api (Hash entry) s2 = (Inr rsrc, s3)"
    and "resourceGetContent api (Hash entry) s3 = (Inr (k, rsrcData), s4)"
    and "\<not> Multihash rsrc"
  shows "Get deps api manifestKey path s
           = (\<lparr>reader = None, mimeType = ResourceContentType deps, status = StatusOK,
               contentKey = None, err = Some (ErrResourceReturn (Hash entry))\<rparr>, s4)"
  using assms by (simp add: Get_def Get_resource_def)

theorem resource_raw_typed_error_witness:
  "Get exDeps exApi (strBytes exPointer) [] (exNews False (strBytes ''breaking''))
     = (\<lparr>reader = None, mimeType = ''application/bzz-resource'', status = 200,
         contentKey = None, err = Some (ErrResourceReturn ''news'')\<rparr>,
        exNews False (strBytes ''breaking''))"
proof -
  have h3: "ContentType \<lparr>Hash = ''news'', Path = [], ContentType = ''application/bzz-resource'',
              Mode = 0, Size = 0, ModTime = 0, Status = 0\<rparr> = ResourceContentType exDeps"
    by (simp add: exDeps_def)
  have h4: "resourceLookupLatestByName exApi
              (Hash \<lparr>Hash = ''news'', Path = [], ContentType = ''application/bzz-resource'',
                     Mode = 0, Size = 0, ModTime = 0, Status = 0\<rparr>) (exNews False (strBytes ''breaking''))
            = (Inr \<lparr>Multihash = False\<rparr>, exNews False (strBytes ''breaking''))"
    by (simp add: exNews_lookup)
  have h5: "resourceGetContent exApi
              (Hash \<lparr>Hash = ''news'', Path = [], ContentType = ''application/bzz-resource'',
                     Mode = 0, Size = 0, ModTime = 0, Status = 0\<rparr>) (exNews False (strBytes ''breaking''))
            = (Inr (strBytes ''breaking'', strBytes ''breaking''), exNews False (strBytes ''breaking''))"
    by (simp add: exNews_content)
  have h6: "\<not> Multihash \<lparr>Multihash = False\<rparr>"
    by simp
  show ?thesis
    using resource_raw_typed_error [OF exNews_load exNews_entry h3 h4 h5 h6]
    by (simp add: exDeps_def StatusOK_def)
qed

text \<open>
  The claim C2 as it is written fails: at a resource pointer whose resource is raw, the
  error result of \<^verbatim>\<open>Get\<close> is not nil.
\<close>

theorem resource_raw_counterexample:
  "err (fst (Get exDeps exApi (strBytes exPointer) [] (exNews False (strBytes ''breaking'')))) \<noteq> None"
  by (simp add: Get_def Get_resource_def exNews_load exNews_entry exNews_lookup exNews_content
      exDeps_marker)

lemma Get_unsupported_digest:
  assumes "loadManifest deps manifestKey s = (Inr trie, s1)"
    and "getEntry deps trie path s1 = ((Some entry, fullpath), s2)"
    and "ContentType entry = ResourceContentType deps"
    and "resourceLookupLatestByName api (Hash entry) s2 = (Inr rsrc, s3)"
    and "resourceGetContent api (Hash entry) s3 = (Inr (k, rsrcData), s4)"
    and "Multihash rsrc"
    and "multihashDecode deps rsrcData = Inr decoded"
    and "Code decoded \<noteq> KECCAK_256 deps"
  shows "Get deps api manifestKey path s
           = (\<lparr>reader = None, mimeType = [], status = StatusUnprocessableEntity,
               contentKey = None, err = None\<rparr>, s4)"
  using assms by (simp add: Get_def Get_resource_def)

text \<open>
  C3 at a failing input. The resource \<open>news\<close> is flagged as multihash and its payload
  decodes to a record with code \<open>0x12\<close>, which is not \<open>0x1b\<close>. \<^verbatim>\<open>Get\<close> returns status 422
  and no reader, and its error result is nil.
\<close>

theorem unsupported_digest_nil_error:
  "multihashDecode exDeps [0x12, 0x02, 0xAA, 0xBB] = Inr \<lparr>Code = 18, Digest = [0xAA, 0xBB]\<rparr>
   \<and> KECCAK_256 exDeps = 27
   \<and> Get exDeps exApi (strBytes exPointer) [] (exNews True [0x12, 0x02, 0xAA, 0xBB])
       = (\<lparr>reader = None, mimeType = [], status = 422, contentKey = None, err = None\<rparr>,
          exNews True [0x12, 0x02, 0xAA, 0xBB])"
proof -
  have d: "multihashDecode exDeps [0x12, 0x02, 0xAA, 0xBB] = Inr \<lparr>Code = 18, Digest = [0xAA, 0xBB]\<rparr>"
    by (simp add: exDeps_def exMultihashDecode_def)
  have k: "KECCAK_256 exDeps = 27"
    by (simp add: exDeps_def)
  have "Get exDeps exApi (strBytes exPointer) [] (exNews True [0x12, 0x02, 0xAA, 0xBB])
       = (\<lparr>reader = None, mimeType = [], status = StatusUnprocessableEntity, contentKey = None,
           err = None\<rparr>, exNews True [0x12, 0x02, 0xAA, 0xBB])"
    by (simp add: Get_def Get_resource_def exNews_load exNews_entry exNews_lookup exNews_content
        exDeps_marker d k)
  with d k show ?thesis
    by (simp add: StatusUnprocessableEntity_def)
qed


section \<open>Put followed by Get\<close>

lemma exKeyString_hi: "exKeyString (strBytes ''hi'') = ''6869''"
  by (simp add: exKeyString_def strBytes_def hexDigit_def)

lemma putManifest_hi: "putManifest exDeps (strBytes ''hi'') ct = exManifest ct"
  by (simp add: putManifest_def exDeps_def exKeyString_hi exManifest_def)

lemma exDecode_marker:
  "exDecode (exManifest ''application/bzz-resource'') =
     Some [\<lparr>Hash = ''6869'', Path = [], ContentType = ''application/bzz-resource'',
            Mode = 0, Size = 0, ModTime = 0, Status = 0\<rparr>]"
  by (simp add: exDecode_def exManifest_def)

lemma exStore_content:
  "dpaStore exApi (strBytes ''hi'') n enc exEmpty
     = (Inr (strBytes ''hi''), exEmpty\<lparr>blocks := [(strBytes ''hi'', strBytes ''hi'')]\<rparr>)"
  by (simp add: exApi_def exStore_def exEmpty_def)

lemma exStore_manifest:
  "dpaStore exApi (strBytes (exManifest ct)) n enc (exEmpty\<lparr>blocks := [(strBytes ''hi'', strBytes ''hi'')]\<rparr>)
     = (Inr (strBytes (exManifest ct)), exStored ct)"
  by (simp add: exApi_def exStore_def exEmpty_def exStored_def)

lemma exStored_load:
  "exDecode (exManifest ct) = Some es \<Longrightarrow>
   loadManifest exDeps (strBytes (exManifest ct)) (exStored ct) = (Inr es, exStored ct)"
  by (simp add: exDeps_def exLoadManifest_def exStored_def bytesStr_strBytes)

lemma exGetEntry_single:
  "getEntry exDeps [\<lparr>Hash = h, Path = [], ContentType = ct, Mode = 0, Size = 0, ModTime = 0, Status = 0\<rparr>] [] w
     = ((Some \<lparr>Hash = h, Path = [], ContentType = ct, Mode = 0, Size = 0, ModTime = 0, Status = 0\<rparr>, []), w)"
  by (simp add: exDeps_def exGetEntry_def)

text \<open>
  The claim C5 as it is written fails for the content type that marks a resource pointer:
  \<^verbatim>\<open>Put\<close> of \<open>hi\<close> with that type succeeds, and \<^verbatim>\<open>Get\<close> of the returned root takes the
  entry for a resource pointer, finds no resource and returns status 404 without a reader.
\<close>

theorem put_get_marker_counterexample:
  "Put exDeps exApi ''hi'' ''application/bzz-resource'' False exEmpty
     = (Inr (strBytes (exManifest ''application/bzz-resource'')), exStored ''application/bzz-resource'')
   \<and> Get exDeps exApi (strBytes (exManifest ''application/bzz-resource'')) []
         (exStored ''application/bzz-resource'')
       = (\<lparr>reader = None, mimeType = [], status = 404, contentKey = None,
           err = Some (ErrExternal ''resource not found'')\<rparr>, exStored ''application/bzz-resource'')"
proof -
  have put: "Put exDeps exApi ''hi'' ''application/bzz-resource'' False exEmpty
     = (Inr (strBytes (exManifest ''application/bzz-resource'')), exStored ''application/bzz-resource'')"
    by (simp add: Put_def Let_def putManifest_hi exStore_content exStore_manifest)
  have look: "resourceLookupLatestByName exApi ''6869'' (exStored ''application/bzz-resource'')
      = (Inl (ErrExternal ''resource not found''), exStored ''application/bzz-resource'')"
    by (simp add: exApi_def exLookupLatestByName_def exStored_def)
  have get: "Get exDeps exApi (strBytes (exManifest ''application/bzz-resource'')) []
         (exStored ''application/bzz-resource'')
       = (\<lparr>reader = None, mimeType = [], status = 404, contentKey = None,
           err = Some (ErrExternal ''resource not found'')\<rparr>, exStored ''application/bzz-resource'')"
    by (simp add: Get_def Get_resource_def exStored_load [OF exDecode_marker] exGetEntry_single
        exDeps_marker look StatusNotFound_def)
  from put get show ?thesis
    by (rule conjI)
qed

text \<open>
  The round trip also breaks for a content type with a double quote, which \<^verbatim>\<open>Put\<close>
  formats into the manifest text without escaping: the stored text is no manifest, and
  \<^verbatim>\<open>Get\<close> of the returned root fails to load it.
\<close>

lemma put_get_quoted_type:
  "Put exDeps exApi ''hi'' ''text/plain; charset=\"utf-8\"'' False exEmpty
     = (Inr (strBytes (exManifest ''text/plain; charset=\"utf-8\"'')),
        exStored ''text/plain; charset=\"utf-8\"'')
   \<and> Get exDeps exApi (strBytes (exManifest ''text/plain; charset=\"utf-8\"'')) []
         (exStored ''text/plain; charset=\"utf-8\"'')
       = (\<lparr>reader = None, mimeType = [], status = 404, contentKey = None,
           err = Some (ErrExternal ''invalid manifest'')\<rparr>,
          exStored ''text/plain; charset=\"utf-8\"'')"
proof -
  have put: "Put exDeps exApi ''hi'' ''text/plain; charset=\"utf-8\"'' False exEmpty
     = (Inr (strBytes (exManifest ''text/plain; charset=\"utf-8\"'')),
        exStored ''text/plain; charset=\"utf-8\"'')"
    by (simp add: Put_def Let_def putManifest_hi exStore_content exStore_manifest)
  have dec: "exDecode (exManifest ''text/plain; charset=\"utf-8\"'') = None"
    by (simp add: exDecode_def exManifest_def)
  have load: "loadManifest exDeps (strBytes (exManifest ''text/plain; charset=\"utf-8\"''))
        (exStored ''text/plain; charset=\"utf-8\"'')
      = (Inl (ErrExternal ''invalid manifest''), exStored ''text/plain; charset=\"utf-8\"'')"
    by (simp add: exDeps_def exLoadManifest_def exStored_def bytesStr_strBytes dec)
  have get: "Get exDeps exApi (strBytes (exManifest ''text/plain; charset=\"utf-8\"'')) []
         (exStored ''text/plain; charset=\"utf-8\"'')
       = (\<lparr>reader = None, mimeType = [], status = 404, contentKey = None,
           err = Some (ErrExternal ''invalid manifest'')\<rparr>,
          exStored ''text/plain; charset=\"utf-8\"'')"
    by (simp add: Get_def load StatusNotFound_def)
  from put get show ?thesis
    by (rule conjI)
qed



section \<open>The combined buffer of AppendFile\<close>

lemma ReadAtLeast_nonpositive:
  assumes "mn \<le> 0"
  shows "ReadAtLeast rd buf mn r = Some (buf, 0, None, r)"
proof -
  have "ReadAtLeast_loop rd buf mn 0 None r = Some (buf, 0, None, r)"
    using assms by (subst ReadAtLeast_loop.simps) simp
  then show ?thesis
    using assms by (simp add: ReadAtLeast_def)
qed

lemma ReadAtLeast_loop_done:
  "mn \<le> int n \<Longrightarrow> ReadAtLeast_loop rd buf mn n er r = Some (buf, n, er, r)"
  by (subst ReadAtLeast_loop.simps) simp

lemma ReadAtLeast_bytes_whole:
  assumes "length content \<le> length buf"
  shows "map_option fst (ReadAtLeast bytesReader_Read buf (int (length content)) (bytes_NewReader content))
           = Some (content @ drop (length content) buf)"
proof (cases "content = []")
  case True
  then show ?thesis
    by (simp add: ReadAtLeast_nonpositive)
next
  case False
  have rd: "bytesReader_Read (length buf) (bytes_NewReader content)
      = ((content, None), \<lparr>rdr_s = content, rdr_i = length content\<rparr>)"
    using False assms by (simp add: bytesReader_Read_def bytes_NewReader_def Let_def)
  have "ReadAtLeast_loop bytesReader_Read buf (int (length content)) 0 None (bytes_NewReader content)
      = ReadAtLeast_loop bytesReader_Read (content @ drop (length content) buf) (int (length content))
          (length content) None \<lparr>rdr_s = content, rdr_i = length content\<rparr>"
    using False assms by (subst ReadAtLeast_loop.simps) (simp add: rd)
  also have "\<dots> = Some (content @ drop (length content) buf, length content, None,
      \<lparr>rdr_s = content, rdr_i = length content\<rparr>)"
    by (rule ReadAtLeast_loop_done) simp
  finally show ?thesis
    using assms by (simp add: ReadAtLeast_def)
qed

lemma AppendFile_buffer_offset_zero:
  assumes len: "sint addSize = int (length content)"
    and less: "addSize <s existingSize"
  shows "AppendFile_buffer deps oldReader existingSize content 0 addSize
           = Some (Inr (content @ replicate (nat (sint existingSize) - length content) 0))"
proof -
  have size: "AppendFile_buffSize 0 addSize existingSize = existingSize"
    using less by (simp add: AppendFile_buffSize_def)
  have lt: "int (length content) < sint existingSize"
    using less len by (simp add: word_sless_alt)
  then have fits: "length content \<le> length (replicate (nat (sint existingSize)) (0 :: byte))"
    by simp
  obtain n er r1 where res: "ReadAtLeast bytesReader_Read (replicate (nat (sint existingSize)) 0)
        (int (length content)) (bytes_NewReader content)
      = Some (content @ drop (length content) (replicate (nat (sint existingSize)) 0), n, er, r1)"
    using ReadAtLeast_bytes_whole [OF fits] by (auto simp: map_option_case split: option.splits)
  have fill: "AppendFile_fill deps oldReader content 0 addSize existingSize
      = Some (Inr (content @ replicate (nat (sint existingSize) - length content) 0, oldReader))"
    using lt by (simp add: AppendFile_fill_def ReadAtLeast_nonpositive len res)
  show ?thesis
    by (simp add: AppendFile_buffer_def size fill)
qed

text \<open>
  C4 at a failing input. The old content is the three bytes \<open>old\<close>, the new content is
  the one byte \<open>N\<close>, written at offset 0 with \<open>addSize = 1\<close> and \<open>existingSize = 3\<close>. The
  combined buffer is \<open>N\<close> followed by two zero bytes, not \<open>N\<close> followed by the bytes
  \<open>ld\<close> of the old content.
\<close>

theorem append_offset_zero_drops_tail:
  "AppendFile_buffer exDeps (fst (dpaRetrieve exApi (strBytes ''old'') exOld)) 3 (strBytes ''N'') 0 1
     = Some (Inr (strBytes ''N'' @ [0, 0]))
   \<and> strBytes ''N'' @ [0, 0] \<noteq> strBytes ''N'' @ drop 1 (take 3 (strBytes ''old''))"
proof -
  have "AppendFile_buffer exDeps (fst (dpaRetrieve exApi (strBytes ''old'') exOld)) 3 (strBytes ''N'') 0 1
      = Some (Inr (strBytes ''N'' @ replicate (nat (sint (3 :: 64 word)) - length (strBytes ''N'')) 0))"
    by (rule AppendFile_buffer_offset_zero) (simp_all add: strBytes_def word_sless_alt)
  moreover have "nat (sint (3 :: 64 word)) - length (strBytes ''N'') = 2"
    by (simp add: strBytes_def)
  moreover have "strBytes ''N'' @ [0, 0] \<noteq> strBytes ''N'' @ drop 1 (take 3 (strBytes ''old''))"
    by (simp add: strBytes_def)
  ultimately show ?thesis
    by (simp add: numeral_2_eq_2)
qed

text \<open>
  C10. After the buffer size is raised to the existing size, the guard of the tail read is
  false for all arguments. The buffer that \<^verbatim>\<open>AppendFile\<close> builds is therefore the one left
  by the allocation and the first two reads, and the guarded read of the old content never
  runs.
\<close>

theorem tail_read_unreachable:
  "\<not> (AppendFile_buffSize offset addSize existingSize <s existingSize)
   \<and> AppendFile_buffer deps oldReader existingSize content offset addSize
       = map_option (map_sum id fst)
           (AppendFile_fill deps oldReader content offset addSize
              (AppendFile_buffSize offset addSize existingSize))"
proof -
  have guard: "\<not> (AppendFile_buffSize offset addSize existingSize <s existingSize)"
    by (simp add: AppendFile_buffSize_def Let_def)
  then have "AppendFile_buffer deps oldReader existingSize content offset addSize
       = map_option (map_sum id fst)
           (AppendFile_fill deps oldReader content offset addSize
              (AppendFile_buffSize offset addSize existingSize))"
    by (simp add: AppendFile_buffer_def Let_def split: option.splits sum.splits prod.splits)
  with guard show ?thesis
    by (rule conjI)
qed

section \<open>The trim of the directory path\<close>

lemma exParse_6869: "Parse exDeps (''bzz:/'' @ ''6869'') = Inr \<lparr>Scheme = ''bzz'', Addr = ''6869'', Path = []\<rparr>"
  by (simp add: exDeps_def exParse_def)

lemma exResolve_6869:
  "Api_Resolve exDeps exApi \<lparr>Scheme = ''bzz'', Addr = ''6869'', Path = []\<rparr> w = (Inr (strBytes ''hi''), w)"
proof -
  have "dns exApi = None"
    by (simp add: exApi_def)
  moreover have "\<not> uriImmutable exDeps \<lparr>Scheme = ''bzz'', Addr = ''6869'', Path = []\<rparr>"
    by (simp add: exDeps_def exImmutable_def)
  moreover have "uriKey exDeps \<lparr>Scheme = ''bzz'', Addr = ''6869'', Path = []\<rparr> = Some (strBytes ''hi'')"
    by (simp add: exDeps_def exKey_6869)
  ultimately show ?thesis
    by (simp add: Api_Resolve_def)
qed

text \<open>
  C9. Slicing the empty directory path with \<^verbatim>\<open>path[:1]\<close> is out of range: the trim
  panics exactly when the path is empty. A call of \<^verbatim>\<open>AddFile\<close>, \<^verbatim>\<open>RemoveFile\<close> or
  \<^verbatim>\<open>AppendFile\<close> with the empty path that gets as far as the trim (the manifest address
  parses and resolves, and for \<^verbatim>\<open>AppendFile\<close> the buffer is built) ends in that panic and
  returns no error value.
\<close>

theorem empty_path_panics:
  assumes "Parse deps (''bzz:/'' @ mhash) = Inr uri"
    and "Api_Resolve deps api uri s = (Inr mkey, s1)"
    and "AppendFile_buffer deps (fst (dpaRetrieve api oldKey s)) existingSize content offset addSize
           = Some (Inr buf)"
  shows "AddFile deps api mhash [] fname content nameresolver s = (Inl PanicSliceBounds, s1)
         \<and> RemoveFile deps api mhash [] fname nameresolver s = (Inl PanicSliceBounds, s1)
         \<and> AppendFile deps api mhash [] fname existingSize content oldKey offset addSize nameresolver s
             = Some (Inl PanicSliceBounds, s1)
         \<and> isl (trimRootDir path) = (path = [])"
proof -
  have trim: "trimRootDir [] = Inl PanicSliceBounds"
    by (simp add: trimRootDir_def)
  have a: "AddFile deps api mhash [] fname content nameresolver s = (Inl PanicSliceBounds, s1)"
    using assms(1,2) by (simp add: AddFile_def trim)
  have r: "RemoveFile deps api mhash [] fname nameresolver s = (Inl PanicSliceBounds, s1)"
    using assms(1,2) by (simp add: RemoveFile_def trim)
  have e: "AppendFile_edit deps api mhash [] fname buf s = (Inl PanicSliceBounds, s1)"
    using assms(1,2) by (simp add: AppendFile_edit_def trim)
  have p: "AppendFile deps api mhash [] fname existingSize content oldKey offset addSize nameresolver s
      = Some (Inl PanicSliceBounds, s1)"
    using assms(3) e by (simp add: AppendFile_def)
  have t: "isl (trimRootDir path) = (path = [])"
    by (cases path) (simp_all add: trimRootDir_def)
  from a r p t show ?thesis
    by (intro conjI)
qed

theorem empty_path_panics_witness:
  "Parse exDeps (''bzz:/'' @ ''6869'') = Inr \<lparr>Scheme = ''bzz'', Addr = ''6869'', Path = []\<rparr>
   \<and> Api_Resolve exDeps exApi \<lparr>Scheme = ''bzz'', Addr = ''6869'', Path = []\<rparr> exOld
       = (Inr (strBytes ''hi''), exOld)
   \<and> AddFile exDeps exApi ''6869'' [] ''a.txt'' (strBytes ''N'') False exOld = (Inl PanicSliceBounds, exOld)
   \<and> RemoveFile exDeps exApi ''6869'' [] ''a.txt'' False exOld = (Inl PanicSliceBounds, exOld)
   \<and> AppendFile exDeps exApi ''6869'' [] ''a.txt'' 3 (strBytes ''N'') (strBytes ''old'') 0 1 False exOld
       = Some (Inl PanicSliceBounds, exOld)
   \<and> isl (trimRootDir []) \<and> \<not> isl (trimRootDir ''/docs'')"
proof -
  have h3: "AppendFile_buffer exDeps (fst (dpaRetrieve exApi (strBytes ''old'') exOld)) 3 (strBytes ''N'') 0 1
      = Some (Inr (strBytes ''N'' @ replicate (nat (sint (3 :: 64 word)) - length (strBytes ''N'')) 0))"
    by (rule AppendFile_buffer_offset_zero) (simp_all add: strBytes_def word_sless_alt)
  note w = empty_path_panics [OF exParse_6869 exResolve_6869 h3]
  show ?thesis
    using w [where fname = "''a.txt''" and nameresolver = False and path = "[]"]
      w [where fname = "''a.txt''" and nameresolver = False and path = "''/docs''"]
      exParse_6869 exResolve_6869 [of exOld]
    by simp
qed



section \<open>Put followed by Get in the content-addressed deployment\<close>

lemma hexDigit_table:
  "list_all (\<lambda>n. hexVal (hexDigit n) = n \<and> jsonPlain (hexDigit n)) [0..<16]"
  by code_simp

lemma hexVal_hexDigit:
  assumes "n < 16"
  shows "hexVal (hexDigit n) = n"
proof -
  have "n \<in> set [0..<16]"
    using assms by simp
  with hexDigit_table show ?thesis
    unfolding list_all_iff by blast
qed

lemma jsonPlain_hexDigit:
  assumes "n < 16"
  shows "jsonPlain (hexDigit n)"
proof -
  have "n \<in> set [0..<16]"
    using assms by simp
  with hexDigit_table show ?thesis
    unfolding list_all_iff by blast
qed

lemma unat_byte_div: "unat (b :: byte) div 16 < 16"
proof -
  have "unat b < 2 ^ LENGTH(8)"
    by (rule unsigned_less)
  then show ?thesis
    by simp
qed

lemma exHex2Bytes_exKeyString: "exHex2Bytes (exKeyString k) = k"
proof (induction k)
  case Nil
  then show ?case
    by (simp add: exKeyString_def)
next
  case (Cons b k)
  have "exKeyString (b # k) = hexDigit (unat b div 16) # hexDigit (unat b mod 16) # exKeyString k"
    by (simp add: exKeyString_def)
  moreover have "hexVal (hexDigit (unat b div 16)) * 16 + hexVal (hexDigit (unat b mod 16)) = unat b"
    by (simp add: hexVal_hexDigit unat_byte_div)
  ultimately show ?case
    using Cons.IH by simp
qed

lemma jsonPlain_exKeyString: "list_all jsonPlain (exKeyString k)"
  by (induction k) (simp_all add: exKeyString_def jsonPlain_hexDigit unat_byte_div)

lemma jsonPlain_no_quote: "list_all jsonPlain str \<Longrightarrow> CHR 0x22 \<notin> set str"
  by (induction str) (auto simp: jsonPlain_def)

lemma takeWhile_until: "q \<notin> set h \<Longrightarrow> takeWhile (\<lambda>c. c \<noteq> q) (h @ q # rest) = h"
  by (induction h) auto

lemma dropWhile_until: "q \<notin> set h \<Longrightarrow> dropWhile (\<lambda>c. c \<noteq> q) (h @ q # rest) = q # rest"
  by (induction h) auto

lemma exDecode_single:
  assumes "CHR 0x22 \<notin> set h" and "CHR 0x22 \<notin> set ct"
  shows "exDecode (''{\"entries\":[{\"hash\":\"'' @ h @ ''\",\"contentType\":\"'' @ ct @ ''\"}]}'')
           = Some [\<lparr>Hash = h, Path = [], ContentType = ct, Mode = 0, Size = 0, ModTime = 0, Status = 0\<rparr>]"
  using assms by (simp add: exDecode_def takeWhile_until dropWhile_until)

lemma decodeManifest_put:
  assumes "list_all jsonPlain contentType"
  shows "decodeManifest (putManifest casDeps key contentType)
           = Some [\<lparr>Hash = KeyString casDeps key, Path = [], ContentType = contentType,
                    Mode = 0, Size = 0, ModTime = 0, Status = 0\<rparr>]"
proof -
  have ks: "KeyString casDeps key = exKeyString key"
    by (simp add: casDeps_def exDeps_def)
  have "exDecode (putManifest casDeps key contentType)
      = Some [\<lparr>Hash = exKeyString key, Path = [], ContentType = contentType,
               Mode = 0, Size = 0, ModTime = 0, Status = 0\<rparr>]"
    unfolding putManifest_def ks
    by (rule exDecode_single) (simp_all add: jsonPlain_no_quote jsonPlain_exKeyString assms)
  then show ?thesis
    by (simp add: decodeManifest_def ks jsonPlain_exKeyString assms)
qed

text \<open>
  C5, as the code has it, in the content-addressed deployment. For every content, every
  starting store and every content type that is not the resource-pointer marker and that
  JSON writes as it is, \<^verbatim>\<open>Put\<close> adds the content as one block and the single-entry
  manifest, which names the content key, as a second block and returns the key of the
  second; \<^verbatim>\<open>Get\<close> of that root with the empty path then returns a reader over the bytes
  of the content, whose reading yields exactly these bytes, and the content type as MIME
  type. The digest is assumed not to collide on the two blocks.
\<close>

theorem put_get_roundtrip:
  assumes "contentType \<noteq> ResourceContentType casDeps"
    and "list_all jsonPlain contentType"
    and "H (strBytes (putManifest casDeps (H (strBytes content)) contentType)) = H (strBytes content)
           \<longrightarrow> putManifest casDeps (H (strBytes content)) contentType = content"
  shows "Put casDeps (casApi H) content contentType toEncrypt s
           = (Inr (putRoot H content contentType), putWorld H content contentType s)
         \<and> decodeManifest (putManifest casDeps (H (strBytes content)) contentType)
             = Some [\<lparr>Hash = KeyString casDeps (H (strBytes content)), Path = [],
                      ContentType = contentType, Mode = 0, Size = 0, ModTime = 0, Status = 0\<rparr>]
         \<and> Get casDeps (casApi H) (putRoot H content contentType) [] (putWorld H content contentType s)
             = (\<lparr>reader = Some (bytes_NewReader (strBytes content)), mimeType = contentType,
                 status = 0, contentKey = Some (H (strBytes content)), err = None\<rparr>,
                putWorld H content contentType s)
         \<and> map_option fst
               (ReadAtLeast bytesReader_Read (replicate (length content) 0) (int (length content))
                  (bytes_NewReader (strBytes content)))
             = Some (strBytes content)"
proof -
  let ?key = "H (strBytes content)"
  let ?m = "putManifest casDeps ?key contentType"
  let ?w = "putWorld H content contentType s"
  let ?e = "\<lparr>Hash = KeyString casDeps ?key, Path = [], ContentType = contentType,
             Mode = 0, Size = 0, ModTime = 0, Status = 0\<rparr>"
  have put: "Put casDeps (casApi H) content contentType toEncrypt s
      = (Inr (putRoot H content contentType), ?w)"
    by (simp add: Put_def Let_def casApi_def casStore_def putRoot_def putWorld_def)
  have dec: "decodeManifest ?m = Some [?e]"
    using assms(2) by (rule decodeManifest_put)
  have load: "loadManifest casDeps (putRoot H content contentType) ?w = (Inr [?e], ?w)"
    by (simp add: casDeps_def casLoadManifest_def putWorld_def bytesStr_strBytes dec [unfolded casDeps_def])
  have entry: "getEntry casDeps [?e] [] ?w = ((Some ?e, []), ?w)"
    by (simp add: casDeps_def exDeps_def exGetEntry_def)
  have hex: "Hex2Bytes casDeps (KeyString casDeps ?key) = ?key"
    by (simp add: casDeps_def exDeps_def exHex2Bytes_exKeyString)
  have rd: "fst (dpaRetrieve (casApi H) ?key ?w) = bytes_NewReader (strBytes content)"
    using assms(3)
    by (auto simp: casApi_def exApi_def exRetrieve_def putWorld_def putRoot_def)
  have get: "Get casDeps (casApi H) (putRoot H content contentType) [] ?w
      = (\<lparr>reader = Some (bytes_NewReader (strBytes content)), mimeType = contentType,
          status = 0, contentKey = Some ?key, err = None\<rparr>, ?w)"
    using assms(1)
    by (simp add: Get_def load entry Get_content_def hex rd StatusMultipleChoices_def Let_def)
  have "length (strBytes content) \<le> length (replicate (length content) (0 :: byte))"
    by (simp add: strBytes_def)
  then have "map_option fst
       (ReadAtLeast bytesReader_Read (replicate (length content) 0) (int (length (strBytes content)))
          (bytes_NewReader (strBytes content)))
     = Some (strBytes content @ drop (length (strBytes content)) (replicate (length content) 0))"
    by (rule ReadAtLeast_bytes_whole)
  then have rdall: "map_option fst
       (ReadAtLeast bytesReader_Read (replicate (length content) 0) (int (length content))
          (bytes_NewReader (strBytes content)))
     = Some (strBytes content)"
    by (simp add: strBytes_def)
  from put dec get rdall show ?thesis
    by (intro conjI)
qed

theorem put_get_roundtrip_witness:
  "''text/plain'' \<noteq> ResourceContentType casDeps
   \<and> list_all jsonPlain ''text/plain''
   \<and> putManifest casDeps (strBytes ''hi'') ''text/plain''
       = ''{\"entries\":[{\"hash\":\"6869\",\"contentType\":\"text/plain\"}]}''
   \<and> Put casDeps (casApi (\<lambda>b. b)) ''hi'' ''text/plain'' False exEmpty
       = (Inr (strBytes (exManifest ''text/plain'')), exStored ''text/plain'')
   \<and> Get casDeps (casApi (\<lambda>b. b)) (strBytes (exManifest ''text/plain'')) [] (exStored ''text/plain'')
       = (\<lparr>reader = Some (bytes_NewReader (strBytes ''hi'')), mimeType = ''text/plain'',
           status = 0, contentKey = Some (strBytes ''hi''), err = None\<rparr>, exStored ''text/plain'')"
proof -
  have h1: "''text/plain'' \<noteq> ResourceContentType casDeps"
    by (simp add: casDeps_def exDeps_def)
  have h2: "list_all jsonPlain ''text/plain''"
    by (simp add: jsonPlain_def)
  have m: "putManifest casDeps (strBytes ''hi'') ''text/plain'' = exManifest ''text/plain''"
    by (simp add: putManifest_def casDeps_def exDeps_def exKeyString_hi exManifest_def)
  have h3: "strBytes (putManifest casDeps (strBytes ''hi'') ''text/plain'') = strBytes ''hi''
      \<longrightarrow> putManifest casDeps (strBytes ''hi'') ''text/plain'' = ''hi''"
    by (simp add: strBytes_eq)
  have root: "putRoot (\<lambda>b. b) ''hi'' ''text/plain'' = strBytes (exManifest ''text/plain'')"
    by (simp add: putRoot_def m)
  have world: "putWorld (\<lambda>b. b) ''hi'' ''text/plain'' exEmpty = exStored ''text/plain''"
    by (simp add: putWorld_def root m exStored_def exEmpty_def)
  show ?thesis
    using put_get_roundtrip [where H = "\<lambda>b. b" and content = "''hi''" and contentType = "''text/plain''"
        and s = exEmpty and toEncrypt = False, OF h1 h2 h3] h1 h2 m
    by (simp add: root world exManifest_def)
qed


end
